theory Spec2Isabelle
  imports Main "HOL-Library.AList"
begin

section \<open>The document tree\<close>

text \<open>
  The scraper (\<^verbatim>\<open>scrap_v2.py\<close>) works on the tree that the HTML parser built. A node
  is a string of the document, a CDATA section, a comment (or another string that text
  extraction never reports) or an element with its tag name, its class tokens (the parser keeps the class attribute
  as a list of tokens), its other attributes and its children. Characters are code points
  below 256; tag and attribute names are the lower-case names the parser stores.
\<close>

datatype node =
  Text string
| CData string
| Comment string
| Element string "string list" "(string \<times> string) list" "node list"

text \<open>
  A tag object knows its parent chain and its following siblings (the code asks for both:
  descendant selectors look at ancestors, \<^verbatim>\<open>find_next_sibling\<close> at siblings). A
  located node carries its ancestors, nearest first, and its following siblings in order.
\<close>

datatype loc = Loc (anc: "node list") (nxt: "node list") (nd: node)

fun walk :: "node list \<Rightarrow> node list \<Rightarrow> loc list" where
  "walk up [] = []"
| "walk up (Text s # ns) = Loc up ns (Text s) # walk up ns"
| "walk up (CData s # ns) = Loc up ns (CData s) # walk up ns"
| "walk up (Comment s # ns) = Loc up ns (Comment s) # walk up ns"
| "walk up (Element t c a ks # ns) =
     Loc up ns (Element t c a ks) # walk (Element t c a ks # up) ks @ walk up ns"

definition descendants :: "loc \<Rightarrow> loc list" where
  \<comment> \<open>every node below the given one, in document order\<close>
  "descendants l =
     (case nd l of Element t c a ks \<Rightarrow> walk (nd l # anc l) ks | _ \<Rightarrow> [])"

definition BeautifulSoup :: "node list \<Rightarrow> loc" where
  \<comment> \<open>the document object: a tag named [document] above the top-level nodes\<close>
  "BeautifulSoup nodes = Loc [] [] (Element ''[document]'' [] [] nodes)"

section \<open>Strings\<close>

definition isspace :: "char \<Rightarrow> bool" where
  \<comment> \<open>the characters below 256 that Python's str.strip removes\<close>
  "isspace c = (c \<in> set [CHR 0x09, CHR 0x0A, CHR 0x0B, CHR 0x0C, CHR 0x0D,
     CHR 0x1C, CHR 0x1D, CHR 0x1E, CHR 0x1F, CHR 0x20, CHR 0x85, CHR 0xA0])"

definition strip :: "string \<Rightarrow> string" where
  "strip s = rev (dropWhile isspace (rev (dropWhile isspace s)))"

definition rstrip_colon :: "string \<Rightarrow> string" where
  \<comment> \<open>s.rstrip(":")\<close>
  "rstrip_colon s = rev (dropWhile (\<lambda>c. c = CHR '':'') (rev s))"

definition lstrip_hash :: "string \<Rightarrow> string" where
  \<comment> \<open>s.lstrip("#")\<close>
  "lstrip_hash s = dropWhile (\<lambda>c. c = CHR ''#'') s"

definition startswith :: "string \<Rightarrow> string \<Rightarrow> bool" where
  "startswith p s = (take (length p) s = p)"

fun contains :: "string \<Rightarrow> string \<Rightarrow> bool" where
  "contains v [] = (v = [])"
| "contains v (c # cs) = (startswith v (c # cs) \<or> contains v cs)"

fun join :: "string \<Rightarrow> string list \<Rightarrow> string" where
  "join sep [] = []"
| "join sep [x] = x"
| "join sep (x # y # ys) = x @ sep @ join sep (y # ys)"

section \<open>Text extraction\<close>

text \<open>
  The parser (bs4 4.11 and later) gives a string the class of the nearest enclosing tag
  named rt, rp, style, script or template, and the plain string class when there is none.
  Text read from a tag reports the strings of one class only: the class that goes with
  the tag's own name when it is one of these five, and otherwise the plain class together
  with the CDATA sections. So the text of a style tag is its style sheet, and the text of
  a table cell leaves out a script that stands inside the cell.
\<close>

definition string_containers :: "string list" where
  "string_containers = [''rt'', ''rp'', ''style'', ''script'', ''template'']"

fun container_of :: "node list \<Rightarrow> string option" where
  \<comment> \<open>the name of the nearest ancestor that is a string container\<close>
  "container_of [] = None"
| "container_of (Element t c a ks # up) =
     (if t \<in> set string_containers then Some t else container_of up)"
| "container_of (n # up) = container_of up"

fun interesting :: "node \<Rightarrow> string option" where
  \<comment> \<open>the class of strings that text read from the tag reports: None is the plain class\<close>
  "interesting (Element t c a ks) = (if t \<in> set string_containers then Some t else None)"
| "interesting n = None"

fun reported :: "string option \<Rightarrow> loc \<Rightarrow> string list" where
  "reported want (Loc up ns (Text s)) = (if container_of up = want then [s] else [])"
| "reported want (Loc up ns (CData s)) = (if want = None then [s] else [])"
| "reported want l = []"

definition strings_of :: "loc \<Rightarrow> string list" where
  \<comment> \<open>the strings below the tag that text extraction reports, in document order\<close>
  "strings_of l = concat (map (reported (interesting (nd l))) (descendants l))"

definition stripped_strings :: "loc \<Rightarrow> string list" where
  \<comment> \<open>with strip=True every string is stripped on its own and dropped when empty\<close>
  "stripped_strings l = filter (\<lambda>s. s \<noteq> []) (map strip (strings_of l))"

definition get_text :: "loc \<Rightarrow> string" where
  \<comment> \<open>tag.text\<close>
  "get_text l = concat (strings_of l)"

definition get_text_strip :: "loc \<Rightarrow> string" where
  \<comment> \<open>tag.get_text(strip=True): the separator is the empty string\<close>
  "get_text_strip l = join [] (stripped_strings l)"

definition get_text_sep_strip :: "loc \<Rightarrow> string" where
  \<comment> \<open>tag.get_text(" ", strip=True)\<close>
  "get_text_sep_strip l = join '' '' (stripped_strings l)"

section \<open>Selectors and searches\<close>

datatype simple = SelTag string | SelId string | SelClass string | SelAttrSub string string

datatype selector =
  Sel "simple list"
| Desc selector "simple list"
| Chld selector "simple list"

fun matches_simple :: "simple \<Rightarrow> node \<Rightarrow> bool" where
  "matches_simple (SelTag x) (Element t c a ks) = (t = x)"
| "matches_simple (SelId x) (Element t c a ks) = (map_of a ''id'' = Some x)"
| "matches_simple (SelClass x) (Element t c a ks) = (x \<in> set c)"
| "matches_simple (SelAttrSub k v) (Element t c a ks) =
     (case map_of a k of None \<Rightarrow> False | Some x \<Rightarrow> contains v x)"
| "matches_simple s n = False"

definition matches_compound :: "simple list \<Rightarrow> node \<Rightarrow> bool" where
  "matches_compound cs n = list_all (\<lambda>s. matches_simple s n) cs"

fun matches :: "selector \<Rightarrow> node list \<Rightarrow> node \<Rightarrow> bool"
  and matches_above :: "selector \<Rightarrow> node list \<Rightarrow> bool" where
  "matches (Sel cs) up n = matches_compound cs n"
| "matches (Desc s cs) up n = (matches_compound cs n \<and> matches_above s up)"
| "matches (Chld s cs) up n =
     (matches_compound cs n \<and> (case up of [] \<Rightarrow> False | p # ps \<Rightarrow> matches s ps p))"
| "matches_above s [] = False"
| "matches_above s (p # ps) = (matches s ps p \<or> matches_above s ps)"

definition select :: "selector \<Rightarrow> loc \<Rightarrow> loc list" where
  \<comment> \<open>tag.select(selector)\<close>
  "select s l = filter (\<lambda>d. matches s (anc d) (nd d)) (descendants l)"

definition first :: "'a list \<Rightarrow> 'a option" where
  "first xs = (case xs of [] \<Rightarrow> None | x # _ \<Rightarrow> Some x)"

definition select_one :: "selector \<Rightarrow> loc \<Rightarrow> loc option" where
  "select_one s l = first (select s l)"

fun has_tag :: "string list \<Rightarrow> node \<Rightarrow> bool" where
  "has_tag names (Element t c a ks) = (t \<in> set names)"
| "has_tag names n = False"

definition find_all :: "string list \<Rightarrow> loc \<Rightarrow> loc list" where
  \<comment> \<open>tag.find_all([names])\<close>
  "find_all names l = filter (\<lambda>d. has_tag names (nd d)) (descendants l)"

definition find_tag :: "string \<Rightarrow> loc \<Rightarrow> loc option" where
  \<comment> \<open>tag.find(name)\<close>
  "find_tag name l = first (find_all [name] l)"

section \<open>Output values\<close>

datatype json = JStr string | JList "json list" | JDict "(string \<times> json) list"

text \<open>
  A Python dict keeps its keys in insertion order; \<^verbatim>\<open>d[k] = v\<close> replaces the value
  of a key in place or appends the new key. That is \<^const>\<open>AList.update\<close> on an
  association list.
\<close>

section \<open>parse\_table\<close>

definition truthy_row :: "string list \<Rightarrow> bool" where
  \<comment> \<open>any(item for item in row_data)\<close>
  "truthy_row row_data = list_ex (\<lambda>item. item \<noteq> []) row_data"

definition row_texts :: "loc \<Rightarrow> string list" where
  \<comment> \<open>[cell.get_text(strip=True) for cell in row.find_all(["th", "td"])]\<close>
  "row_texts row = map (\<lambda>cell. get_text_strip cell) (find_all [''th'', ''td''] row)"

definition collect_rows :: "loc list \<Rightarrow> string list list" where
  \<comment> \<open>the loop over the rows, appending each row that is not entirely blank\<close>
  "collect_rows rows =
     fold (\<lambda>row data_rows.
        let row_data = row_texts row
        in if truthy_row row_data then data_rows @ [row_data] else data_rows) rows []"

definition json_rows :: "string list list \<Rightarrow> json" where
  "json_rows rs = JList (map (\<lambda>r. JList (map JStr r)) rs)"

definition parse_table :: "loc option \<Rightarrow> json" where
  "parse_table table_tag =
     (case table_tag of
        None \<Rightarrow> JDict []
      | Some t \<Rightarrow>
          let headers =
                (case select_one (Desc (Sel [SelTag ''thead'']) [SelTag ''tr'']) t of
                   None \<Rightarrow> []
                 | Some header_row \<Rightarrow>
                     map (\<lambda>th. get_text_strip th) (select (Sel [SelTag ''th'']) header_row));
              data_rows =
                (case select_one (Sel [SelTag ''tbody'']) t of
                   None \<Rightarrow> []
                 | Some body \<Rightarrow> collect_rows (select (Sel [SelTag ''tr'']) body))
          in JDict [(''headers'', JList (map JStr headers)), (''rows'', json_rows data_rows)])"

section \<open>Section parsers\<close>

definition info :: "string \<Rightarrow> (string \<times> json) list" where
  \<comment> \<open>the placeholder mapping {"info": message}\<close>
  "info msg = [(''info'', JStr msg)]"

definition ratio_entries :: "loc list \<Rightarrow> json list" where
  \<comment> \<open>the loop over the list items of the top ratios\<close>
  "ratio_entries top_ratios =
     fold (\<lambda>r ratio_data.
        case (select_one (Sel [SelClass ''name'']) r, select_one (Sel [SelClass ''value'']) r) of
          (Some name, Some val) \<Rightarrow>
            ratio_data @ [JDict [(''ratio_name'', JStr (get_text_strip name)),
                                 (''ratio_value'', JStr (get_text_strip val))]]
        | _ \<Rightarrow> ratio_data) top_ratios []"

definition parse_summary_section :: "loc \<Rightarrow> (string \<times> json) list" where
  "parse_summary_section summary_soup =
     (let data = [];
          about_tag = select_one (Sel [SelTag ''div'', SelClass ''about'']) summary_soup;
          data = AList.update ''about''
            (JStr (case about_tag of Some t \<Rightarrow> get_text_strip t | None \<Rightarrow> [])) data;
          key_points_tag =
            select_one (Sel [SelTag ''div'', SelClass ''sub'', SelClass ''commentary'']) summary_soup;
          data = AList.update ''key_points''
            (JStr (case key_points_tag of Some t \<Rightarrow> get_text_sep_strip t | None \<Rightarrow> [])) data;
          top_ratios = select (Chld (Sel [SelId ''top-ratios'']) [SelTag ''li'']) summary_soup
      in AList.update ''top_ratios'' (JList (ratio_entries top_ratios)) data)"

definition list_items :: "selector \<Rightarrow> loc \<Rightarrow> json" where
  \<comment> \<open>the texts of the li elements below the first list the selector finds\<close>
  "list_items s soup =
     JList (case select_one s soup of
              None \<Rightarrow> []
            | Some ul \<Rightarrow>
                fold (\<lambda>li acc. acc @ [JStr (get_text_strip li)])
                  (select (Sel [SelTag ''li'']) ul) [])"

definition parse_analysis_section :: "loc \<Rightarrow> (string \<times> json) list" where
  "parse_analysis_section analysis_soup =
     (let data = [];
          data = AList.update ''pros''
            (list_items (Desc (Sel [SelTag ''div'', SelClass ''pros'']) [SelTag ''ul'']) analysis_soup) data
      in AList.update ''cons''
            (list_items (Desc (Sel [SelTag ''div'', SelClass ''cons'']) [SelTag ''ul'']) analysis_soup) data)"

definition peer_classes :: "string list" where
  "peer_classes = [''data-table'', ''text-nowrap'', ''striped'', ''mark-visited'', ''no-scroll-right'']"

definition peer_selector :: selector where
  \<comment> \<open>table.data-table.text-nowrap.striped.mark-visited.no-scroll-right\<close>
  "peer_selector = Sel (SelTag ''table'' # map SelClass peer_classes)"

definition peer_rows :: "loc list \<Rightarrow> string list list" where
  \<comment> \<open>the loop over the rows of the body and of the footer\<close>
  "peer_rows trs =
     fold (\<lambda>tr rows.
        let row_text = map (\<lambda>c. get_text_strip c) (find_all [''td'', ''th''] tr)
        in if truthy_row row_text then rows @ [row_text] else rows) trs []"

definition peer_table :: "loc \<Rightarrow> json" where
  \<comment> \<open>what parse_peers_section builds from the table it found\<close>
  "peer_table table =
     (let headers =
            (case select_one (Sel [SelTag ''thead'']) table of
               None \<Rightarrow> []
             | Some thead \<Rightarrow>
                 map (\<lambda>hc. get_text_strip hc)
                   (select (Desc (Sel [SelTag ''tr'']) [SelTag ''th'']) thead));
          rows =
            (case select_one (Sel [SelTag ''tbody'']) table of
               None \<Rightarrow> []
             | Some tbody \<Rightarrow> peer_rows (select (Sel [SelTag ''tr'']) tbody));
          footer =
            (case select_one (Sel [SelTag ''tfoot'']) table of
               None \<Rightarrow> []
             | Some tfoot \<Rightarrow> peer_rows (select (Sel [SelTag ''tr'']) tfoot))
      in JDict [(''headers'', JList (map JStr headers)), (''rows'', json_rows rows),
                (''footer'', json_rows footer)])"

definition parse_peers_section :: "loc \<Rightarrow> (string \<times> json) list" where
  "parse_peers_section peers_soup =
     (case select_one peer_selector peers_soup of
        None \<Rightarrow> AList.update ''peer_comparison'' (JDict (info ''No peer table found'')) []
      | Some table \<Rightarrow> AList.update ''peer_comparison'' (peer_table table) [])"

definition data_table :: "loc \<Rightarrow> json" where
  \<comment> \<open>parse_table(soup.select_one("table.data-table"))\<close>
  "data_table soup = parse_table (select_one (Sel [SelTag ''table'', SelClass ''data-table'']) soup)"

definition parse_quarters_section :: "loc \<Rightarrow> (string \<times> json) list" where
  "parse_quarters_section quarters_soup = AList.update ''quarterly_results'' (data_table quarters_soup) []"

definition parse_profit_loss_section :: "loc \<Rightarrow> (string \<times> json) list" where
  "parse_profit_loss_section pnl_soup = AList.update ''profit_loss'' (data_table pnl_soup) []"

definition parse_balance_sheet_section :: "loc \<Rightarrow> (string \<times> json) list" where
  "parse_balance_sheet_section bs_soup = AList.update ''balance_sheet'' (data_table bs_soup) []"

definition parse_cash_flow_section :: "loc \<Rightarrow> (string \<times> json) list" where
  "parse_cash_flow_section cf_soup = AList.update ''cash_flow'' (data_table cf_soup) []"

definition parse_ratios_section :: "loc \<Rightarrow> (string \<times> json) list" where
  "parse_ratios_section ratios_soup = AList.update ''ratios'' (data_table ratios_soup) []"

definition parse_shareholding_section :: "loc \<Rightarrow> (string \<times> json) list" where
  "parse_shareholding_section sh_soup = AList.update ''shareholding'' (data_table sh_soup) []"

definition parse_documents_section :: "loc \<Rightarrow> (string \<times> json) list" where
  "parse_documents_section docs_soup =
     AList.update ''documents_info'' (JStr (get_text_sep_strip docs_soup)) []"

section \<open>parse\_growth\_tables\<close>

type_synonym growth = "(string \<times> (string \<times> string) list) list"

text \<open>
  The loop over the rows of one table keeps \<^verbatim>\<open>heading_text\<close> (None until a heading
  row is met) and \<^verbatim>\<open>row_data\<close>. Whenever \<^verbatim>\<open>heading_text\<close> is not None,
  \<^verbatim>\<open>row_data\<close> is the very dict stored at \<^verbatim>\<open>data[heading_text]\<close>: a heading
  row binds both together, and only a heading row rebinds either. So the write
  \<^verbatim>\<open>row_data[label] = value\<close> is a write to \<^verbatim>\<open>data[heading_text][label]\<close>.
\<close>

definition period_entry :: "loc list \<Rightarrow> string \<times> string" where
  \<comment> \<open>label and value of a row with the data cells tds\<close>
  "period_entry tds =
     (rstrip_colon (get_text_strip (tds ! 0)), get_text_strip (tds ! 1))"

definition put_entry :: "string \<Rightarrow> string \<times> string \<Rightarrow> growth \<Rightarrow> growth" where
  \<comment> \<open>data[heading][label] = value\<close>
  "put_entry heading e data =
     (case map_of data heading of
        None \<Rightarrow> data
      | Some row_data \<Rightarrow> AList.update heading (AList.update (fst e) (snd e) row_data) data)"

definition growth_row :: "loc \<Rightarrow> string option \<times> growth \<Rightarrow> string option \<times> growth" where
  "growth_row row st =
     (case st of (heading_text, data) \<Rightarrow>
        (case find_tag ''th'' row of
           Some th_el \<Rightarrow>
             (let h = get_text_strip th_el in (Some h, AList.update h [] data))
         | None \<Rightarrow>
             (let tds = find_all [''td''] row
              in case heading_text of
                   None \<Rightarrow> st
                 | Some h \<Rightarrow> if length tds = 2 then (Some h, put_entry h (period_entry tds) data) else st)))"

definition growth_table :: "loc \<Rightarrow> growth \<Rightarrow> growth" where
  \<comment> \<open>one pass of the outer loop: heading_text starts as None for every table\<close>
  "growth_table tbl data = snd (fold growth_row (select (Sel [SelTag ''tr'']) tbl) (None, data))"

definition ranges_tables :: "loc \<Rightarrow> loc list" where
  "ranges_tables section_soup = select (Sel [SelTag ''table'', SelClass ''ranges-table'']) section_soup"

definition parse_growth_tables :: "loc \<Rightarrow> growth" where
  "parse_growth_tables section_soup =
     (let data = []; tables = ranges_tables section_soup
      in if tables = [] then data else fold growth_table tables data)"

section \<open>parse\_commentary\_html\<close>

fun is_div_sub :: "node \<Rightarrow> bool" where
  \<comment> \<open>the filter of find_next_sibling("div", class_="sub")\<close>
  "is_div_sub (Element t c a ks) = (t = ''div'' \<and> ''sub'' \<in> set c)"
| "is_div_sub n = False"

fun first_sibling :: "(node \<Rightarrow> bool) \<Rightarrow> node list \<Rightarrow> node list \<Rightarrow> loc option" where
  \<comment> \<open>the first of the siblings that passes the filter, as a tag below the same ancestors\<close>
  "first_sibling P up [] = None"
| "first_sibling P up (n # ns) = (if P n then Some (Loc up ns n) else first_sibling P up ns)"

definition find_next_sibling :: "loc \<Rightarrow> loc option" where
  \<comment> \<open>the first later sibling that passes the filter\<close>
  "find_next_sibling l = first_sibling is_div_sub (anc l) (nxt l)"

definition heading_selector :: selector where
  \<comment> \<open>div.strong.upper.letter-spacing\<close>
  "heading_selector = Sel [SelTag ''div'', SelClass ''strong'', SelClass ''upper'', SelClass ''letter-spacing'']"

definition commentary_step :: "loc \<Rightarrow> (string \<times> string) list \<Rightarrow> (string \<times> string) list" where
  "commentary_step heading commentary_data =
     (let heading_text = get_text_strip heading
      in case find_next_sibling heading of
           Some next_sub \<Rightarrow> AList.update heading_text (get_text_sep_strip next_sub) commentary_data
         | None \<Rightarrow> commentary_data)"

definition parse_commentary_html :: "loc \<Rightarrow> (string \<times> string) list" where
  \<comment> \<open>the argument is the document the parser built from the commentary markup\<close>
  "parse_commentary_html soup = fold commentary_step (select heading_selector soup) []"

section \<open>The orchestrator\<close>

text \<open>
  The two requests are the only input of a run. The web is a function from the address
  to what \<^verbatim>\<open>requests.get\<close>, \<^verbatim>\<open>raise_for_status\<close> and the HTML parser make of
  it: a transport error, or the parsed document. What the program prints is not part of
  the model.
\<close>

datatype error = TransportError | SelectorError

type_synonym web = "string \<Rightarrow> error + loc"

definition parse_company_name :: "loc \<Rightarrow> string" where
  "parse_company_name soup =
     (case select_one (Desc (Sel [SelTag ''div'', SelClass ''company-nav''])
                        [SelTag ''h1'', SelClass ''h2'', SelClass ''shrink-text'']) soup of
        Some name_tag \<Rightarrow> get_text_strip name_tag
      | None \<Rightarrow> ''UnknownCompany'')"

definition isdigit :: "char \<Rightarrow> bool" where
  "isdigit c = (c \<in> set ''0123456789'')"

definition id_prefix :: string where
  \<comment> \<open>the literal part of the pattern, up to and with the opening quote\<close>
  "id_prefix = ''data-row-company-id='' @ [CHR 0x22]"

definition match_here :: "string \<Rightarrow> string option" where
  \<comment> \<open>the pattern data-row-company-id="(\d+)" matched at the start of s: group 1\<close>
  "match_here s =
     (if startswith id_prefix s
      then (let r = drop (length id_prefix) s; ds = takeWhile isdigit r
            in if ds \<noteq> [] \<and> startswith [CHR 0x22] (dropWhile isdigit r) then Some ds else None)
      else None)"

fun re_search :: "string \<Rightarrow> string option" where
  \<comment> \<open>re.search: the leftmost position where the pattern matches\<close>
  "re_search [] = match_here []"
| "re_search (c # cs) =
     (case match_here (c # cs) of Some d \<Rightarrow> Some d | None \<Rightarrow> re_search cs)"

fun find_company_id :: "loc list \<Rightarrow> string option" where
  \<comment> \<open>the loop over the style tags, left at the first match\<close>
  "find_company_id [] = None"
| "find_company_id (st # sts) =
     (case re_search (get_text st) of
        Some d \<Rightarrow> Some d
      | None \<Rightarrow> find_company_id sts)"

definition truthy :: "string option \<Rightarrow> string option" where
  \<comment> \<open>an optional string under a truth test: None and the empty string are false\<close>
  "truthy x = (case x of None \<Rightarrow> None | Some s \<Rightarrow> if s = [] then None else Some s)"

fun attr :: "string \<Rightarrow> node \<Rightarrow> string option" where
  "attr k (Element t c a ks) = map_of a k"
| "attr k n = None"

definition nav_links :: "loc \<Rightarrow> loc list" where
  \<comment> \<open>sub_nav.find_all("a", href=True)\<close>
  "nav_links sub_nav = filter (\<lambda>d. attr ''href'' (nd d) \<noteq> None) (find_all [''a''] sub_nav)"

datatype parser =
  Summary | Analysis | Peers | Quarters | ProfitLoss | BalanceSheet | CashFlow | Ratios
| Shareholding | Documents

fun run_parser :: "parser \<Rightarrow> loc \<Rightarrow> (string \<times> json) list" where
  "run_parser Summary = parse_summary_section"
| "run_parser Analysis = parse_analysis_section"
| "run_parser Peers = parse_peers_section"
| "run_parser Quarters = parse_quarters_section"
| "run_parser ProfitLoss = parse_profit_loss_section"
| "run_parser BalanceSheet = parse_balance_sheet_section"
| "run_parser CashFlow = parse_cash_flow_section"
| "run_parser Ratios = parse_ratios_section"
| "run_parser Shareholding = parse_shareholding_section"
| "run_parser Documents = parse_documents_section"

definition parser_map :: "(string \<times> parser option) list" where
  "parser_map =
     [(''Summary'', Some Summary), (''top'', Some Summary), (''Chart'', None),
      (''analysis'', Some Analysis), (''Analysis'', Some Analysis),
      (''peers'', Some Peers), (''Peers'', Some Peers),
      (''quarters'', Some Quarters), (''Quarters'', Some Quarters),
      (''profit-loss'', Some ProfitLoss), (''Profit & Loss'', Some ProfitLoss),
      (''balance-sheet'', Some BalanceSheet), (''Balance Sheet'', Some BalanceSheet),
      (''cash-flow'', Some CashFlow), (''Cash Flow'', Some CashFlow),
      (''ratios'', Some Ratios), (''Ratios'', Some Ratios),
      (''shareholding'', Some Shareholding), (''investors'', Some Shareholding),
      (''Investors'', Some Shareholding),
      (''documents'', Some Documents), (''Documents'', Some Documents)]"

definition parser_map_get :: "string \<Rightarrow> parser option" where
  \<comment> \<open>parser_map.get(key): None for a missing key and for the key mapped to None\<close>
  "parser_map_get k = (case map_of parser_map k of Some p \<Rightarrow> p | None \<Rightarrow> None)"

text \<open>
  The section is looked up with a selector text built from the fragment id,
  \<^verbatim>\<open>section#<id>\<close> and \<^verbatim>\<open>div#<id>\<close>. When the id is a CSS identifier
  (without escapes) the text is the compound selector of the tag and the id. For any other
  id the selector library decides: it rejects the text and the call raises, or it reads
  the text as some other selector and returns the first match of that one. This part of
  the library is a parameter of the model: a function from the selector text and the
  document to an error or the match.
\<close>

type_synonym css = "string \<Rightarrow> loc \<Rightarrow> error + loc option"

definition ident_start :: "char \<Rightarrow> bool" where
  "ident_start c =
     (let n = (of_char c :: nat)
      in (65 \<le> n \<and> n \<le> 90) \<or> (97 \<le> n \<and> n \<le> 122) \<or> n = 95 \<or> 160 \<le> n)"

definition ident_char :: "char \<Rightarrow> bool" where
  "ident_char c = (ident_start c \<or> isdigit c \<or> c = CHR ''-'')"

definition css_ident :: "string \<Rightarrow> bool" where
  "css_ident s =
     (list_all ident_char s \<and>
      (case s of
         [] \<Rightarrow> False
       | c # r \<Rightarrow>
           if c = CHR ''-''
           then (case r of [] \<Rightarrow> False | d # _ \<Rightarrow> d = CHR ''-'' \<or> ident_start d)
           else ident_start c))"

definition resolve_section :: "css \<Rightarrow> loc \<Rightarrow> string \<Rightarrow> error + loc option" where
  \<comment> \<open>soup.select_one(f"section#{section_id}") or soup.select_one(f"div#{section_id}")\<close>
  "resolve_section css soup section_id =
     (if css_ident section_id
      then Inr (case select_one (Sel [SelTag ''section'', SelId section_id]) soup of
                  Some s \<Rightarrow> Some s
                | None \<Rightarrow> select_one (Sel [SelTag ''div'', SelId section_id]) soup)
      else (case css (''section#'' @ section_id) soup of
              Inl e \<Rightarrow> Inl e
            | Inr (Some s) \<Rightarrow> Inr (Some s)
            | Inr None \<Rightarrow> css (''div#'' @ section_id) soup))"

definition link_label :: "loc \<Rightarrow> string \<Rightarrow> string" where
  \<comment> \<open>link.get_text(strip=True) or section_id\<close>
  "link_label link section_id =
     (let t = get_text_strip link in if t \<noteq> [] then t else section_id)"

definition nav_step ::
  "css \<Rightarrow> loc \<Rightarrow> loc \<Rightarrow> (string \<times> json) list \<Rightarrow> error + (string \<times> json) list" where
  \<comment> \<open>the body of the loop over the navigation links\<close>
  "nav_step css soup link results =
     (let href = (case attr ''href'' (nd link) of Some h \<Rightarrow> h | None \<Rightarrow> [])
      in if \<not> startswith ''#'' href then Inr results
         else let section_id = lstrip_hash href
              in if section_id = [] then Inr results
                 else case resolve_section css soup section_id of
                        Inl e \<Rightarrow> Inl e
                      | Inr None \<Rightarrow> Inr results
                      | Inr (Some section_tag) \<Rightarrow>
                          (case (case parser_map_get (link_label link section_id) of
                                   Some p \<Rightarrow> Some p
                                 | None \<Rightarrow> parser_map_get section_id) of
                             Some parser_func \<Rightarrow>
                               Inr (AList.update (link_label link section_id)
                                      (JDict (run_parser parser_func section_tag)) results)
                           | None \<Rightarrow>
                               Inr (AList.update (link_label link section_id)
                                      (JDict (info ''No specialized parser for this section.''))
                                      results)))"

fun nav_loop ::
  "css \<Rightarrow> loc \<Rightarrow> loc list \<Rightarrow> (string \<times> json) list \<Rightarrow> error + (string \<times> json) list" where
  "nav_loop css soup [] results = Inr results"
| "nav_loop css soup (link # links) results =
     (case nav_step css soup link results of
        Inl e \<Rightarrow> Inl e
      | Inr results' \<Rightarrow> nav_loop css soup links results')"

definition json_of_strings :: "(string \<times> string) list \<Rightarrow> json" where
  "json_of_strings d = JDict (map (\<lambda>(k, v). (k, JStr v)) d)"

definition json_of_growth :: "growth \<Rightarrow> json" where
  "json_of_growth g = JDict (map (\<lambda>(h, row_data). (h, json_of_strings row_data)) g)"

definition commentary_url :: "string \<Rightarrow> string" where
  "commentary_url company_id =
     ''https://www.screener.in/wiki/company/'' @ company_id @ ''/commentary/v2/''"

definition fetch_commentary_data :: "web \<Rightarrow> string \<Rightarrow> error + (string \<times> string) list" where
  "fetch_commentary_data web company_id =
     (case web (commentary_url company_id) of
        Inl e \<Rightarrow> Inl e
      | Inr soup \<Rightarrow> Inr (parse_commentary_html soup))"

definition company_id_of :: "loc \<Rightarrow> string option" where
  "company_id_of soup = find_company_id (find_all [''style''] soup)"

definition sub_nav_of :: "loc \<Rightarrow> loc option" where
  "sub_nav_of soup =
     select_one (Desc (Sel [SelTag ''div'', SelClass ''sub-nav-holder'']) [SelClass ''sub-nav'']) soup"

definition first_results :: "loc \<Rightarrow> (string \<times> json) list" where
  \<comment> \<open>the results after steps 1 and 2: the company name and the company id\<close>
  "first_results soup =
     (let results = [];
          results = AList.update ''company_name'' (JStr (parse_company_name soup)) results;
          company_id = company_id_of soup
      in AList.update ''company_id''
           (JStr (case truthy company_id of Some c \<Rightarrow> c | None \<Rightarrow> ''N/A'')) results)"

definition add_growth :: "loc \<Rightarrow> (string \<times> json) list \<Rightarrow> (string \<times> json) list" where
  "add_growth soup results =
     (case select_one (Sel [SelTag ''div'', SelAttrSub ''style'' ''grid-template-columns'']) soup of
        Some growth_div \<Rightarrow>
          AList.update ''growth_metrics'' (json_of_growth (parse_growth_tables growth_div)) results
      | None \<Rightarrow> results)"

definition add_commentary ::
  "web \<Rightarrow> string option \<Rightarrow> (string \<times> json) list \<Rightarrow> error + (string \<times> json) list" where
  "add_commentary web company_id results =
     (case truthy company_id of
        Some c \<Rightarrow>
          (case fetch_commentary_data web c of
             Inl e \<Rightarrow> Inl e
           | Inr commentary_data \<Rightarrow>
               Inr (AList.update ''commentary'' (json_of_strings commentary_data) results))
      | None \<Rightarrow>
          Inr (AList.update ''commentary''
                 (JDict (info ''Company ID not found, so commentary not fetched.'')) results))"

definition scrape_screener_data ::
  "css \<Rightarrow> web \<Rightarrow> string \<Rightarrow> error + (string \<times> json) list" where
  "scrape_screener_data css web url =
     (case web url of
        Inl e \<Rightarrow> Inl e
      | Inr soup \<Rightarrow>
          (let results = first_results soup
           in case sub_nav_of soup of
                None \<Rightarrow> Inr results
              | Some sub_nav \<Rightarrow>
                  (case nav_loop css soup (nav_links sub_nav) results of
                     Inl e \<Rightarrow> Inl e
                   | Inr results \<Rightarrow>
                       add_commentary web (company_id_of soup) (add_growth soup results))))"

section \<open>Notions of the specification\<close>

definition every_body_row :: "loc \<Rightarrow> loc list" where
  \<comment> \<open>every row of the table that stands in a table body, in document order\<close>
  "every_body_row t = select (Desc (Sel [SelTag ''tbody'']) [SelTag ''tr'']) t"

definition first_tbody_rows :: "loc \<Rightarrow> loc list" where
  \<comment> \<open>the rows below the first tbody element of the table; none when it has no tbody\<close>
  "first_tbody_rows t =
     (case select_one (Sel [SelTag ''tbody'']) t of
        None \<Rightarrow> []
      | Some body \<Rightarrow> select (Sel [SelTag ''tr'']) body)"

definition nonblank_row :: "loc \<Rightarrow> bool" where
  \<comment> \<open>at least one cell of the row is non-empty after trimming\<close>
  "nonblank_row row =
     list_ex (\<lambda>cell. strip (get_text cell) \<noteq> []) (find_all [''th'', ''td''] row)"

definition cell :: "string \<Rightarrow> string \<Rightarrow> node" where
  "cell name s = Element name [] [] [Text s]"

definition row_of :: "node list \<Rightarrow> node" where
  "row_of cells = Element ''tr'' [] [] cells"

definition hdfc_table :: loc where
  \<comment> \<open>a table whose body has a blank row and the row 1., HDFC Bank\<close>
  "hdfc_table = Loc [] [] (Element ''table'' [] []
     [Element ''tbody'' [] []
        [row_of [cell ''td'' '' '', cell ''td'' ''''],
         row_of [cell ''td'' ''1.'', cell ''td'' '' HDFC Bank'']]])"

definition two_body_table :: loc where
  \<comment> \<open>a table with two bodies of one row each\<close>
  "two_body_table = Loc [] [] (Element ''table'' [] []
     [Element ''tbody'' [] [] [row_of [cell ''td'' ''a'']],
      Element ''tbody'' [] [] [row_of [cell ''td'' ''b'']]])"

definition bodiless_table :: loc where
  \<comment> \<open>a table whose row stands right below the table element\<close>
  "bodiless_table = Loc [] [] (Element ''table'' [] [] [row_of [cell ''td'' ''a'']])"

subsection \<open>Growth tables\<close>

definition table_rows :: "loc \<Rightarrow> loc list" where
  "table_rows tbl = select (Sel [SelTag ''tr'']) tbl"

definition heading_row :: "loc \<Rightarrow> bool" where
  \<comment> \<open>the row has a header cell\<close>
  "heading_row row = (find_tag ''th'' row \<noteq> None)"

definition heading_of :: "loc \<Rightarrow> string" where
  \<comment> \<open>the trimmed text of the first header cell of the row\<close>
  "heading_of row = (case find_tag ''th'' row of Some th \<Rightarrow> get_text_strip th | None \<Rightarrow> [])"

definition two_cells :: "loc \<Rightarrow> bool" where
  \<comment> \<open>the row has exactly two data cells\<close>
  "two_cells row = (length (find_all [''td''] row) = 2)"

definition row_entry :: "loc \<Rightarrow> string \<times> string" where
  "row_entry row = period_entry (find_all [''td''] row)"

text \<open>
  The entries that the two-cell rows of a run of rows contribute, in order, to a mapping.
\<close>

definition add_entries :: "loc list \<Rightarrow> (string \<times> string) list \<Rightarrow> (string \<times> string) list" where
  "add_entries grp d =
     fold (\<lambda>row d. if two_cells row then AList.update (fst (row_entry row)) (snd (row_entry row)) d else d) grp d"

text \<open>
  The rows of one table, cut at the heading rows: the rows before the first heading row,
  and for every heading row its text with the rows that follow it up to the next heading
  row.
\<close>

fun sections :: "loc list \<Rightarrow> loc list \<times> (string \<times> loc list) list" where
  "sections [] = ([], [])"
| "sections (r # rs) =
     (case sections rs of (pre, gs) \<Rightarrow>
        if heading_row r then ([], (heading_of r, pre) # gs) else (r # pre, gs))"

definition groups :: "loc list \<Rightarrow> (string \<times> loc list) list" where
  "groups rows = snd (sections rows)"

definition record_group :: "string \<times> loc list \<Rightarrow> growth \<Rightarrow> growth" where
  "record_group g data = AList.update (fst g) (add_entries (snd g) []) data"

definition all_groups :: "loc \<Rightarrow> (string \<times> loc list) list" where
  "all_groups s = concat (map (\<lambda>tbl. groups (select (Sel [SelTag ''tr'']) tbl)) (ranges_tables s))"

definition sales_section :: loc where
  "sales_section = Loc [] [] (Element ''div'' [] []
     [Element ''table'' [''ranges-table''] []
        [row_of [cell ''th'' ''Compounded Sales Growth''],
         row_of [cell ''td'' ''10 Years:'', cell ''td'' ''17%''],
         row_of [cell ''td'' ''5 Years:'', cell ''td'' ''14%'']]])"

definition plain_row :: loc where
  "plain_row = Loc [] [] (row_of [cell ''td'' ''10 Years:'', cell ''td'' ''17%''])"

definition head_row :: loc where
  "head_row = Loc [] [] (row_of [cell ''th'' ''G''])"

definition mixed_row :: loc where
  "mixed_row = Loc [] [] (row_of [cell ''th'' ''H'', cell ''td'' ''10 Years:'', cell ''td'' ''17%''])"

definition dup_section :: loc where
  "dup_section = Loc [] [] (Element ''div'' [] []
     [Element ''table'' [''ranges-table''] []
        [row_of [cell ''th'' ''G''],
         row_of [cell ''td'' ''10 Years:'', cell ''td'' ''17%''],
         row_of [cell ''th'' ''G''],
         row_of [cell ''td'' ''5 Years:'', cell ''td'' ''14%'']]])"

subsection \<open>Commentary\<close>

fun is_element :: "node \<Rightarrow> bool" where
  "is_element (Element t c a ks) = True"
| "is_element n = False"

definition immediate_sub :: "loc \<Rightarrow> node option" where
  \<comment> \<open>the sibling element right after the node, when it is a div of class sub\<close>
  "immediate_sub l =
     (case List.find is_element (nxt l) of
        Some n \<Rightarrow> if is_div_sub n then Some n else None
      | None \<Rightarrow> None)"

definition heading_pair :: "loc \<Rightarrow> (string \<times> string) option" where
  \<comment> \<open>heading text and body text, for a heading that has a later sibling div of class sub\<close>
  "heading_pair h =
     (case find_next_sibling h of
        Some n \<Rightarrow> Some (get_text_strip h, get_text_sep_strip n)
      | None \<Rightarrow> None)"

definition heading_pairs :: "loc \<Rightarrow> (string \<times> string) list" where
  "heading_pairs soup = List.map_filter heading_pair (select heading_selector soup)"

definition heading_div :: "string \<Rightarrow> node" where
  "heading_div s = Element ''div'' [''strong'', ''upper'', ''letter-spacing''] [] [Text s]"

definition gap_doc :: loc where
  \<comment> \<open>a heading, a paragraph, and only then a div of class sub\<close>
  "gap_doc = BeautifulSoup
     [heading_div ''About'', Element ''p'' [] [] [Text ''note''],
      Element ''div'' [''sub''] [] [Element ''p'' [] [] [Text '' Kotak is ''], Element ''p'' [] [] [Text ''a bank. '']]]"

definition about_doc :: loc where
  \<comment> \<open>a heading right before its body, and a heading with no body after it\<close>
  "about_doc = BeautifulSoup
     [heading_div ''About'', Text '' '',
      Element ''div'' [''sub''] [] [Text ''Kotak Mahindra Bank is a banking company.''],
      heading_div ''Key Points'']"

subsection \<open>Peers and summary\<close>


definition classed_table :: "string list \<Rightarrow> string \<Rightarrow> node" where
  "classed_table classes s =
     Element ''table'' classes []
       [Element ''thead'' [] [] [row_of [cell ''th'' ''Name'']],
        Element ''tbody'' [] [] [row_of [cell ''td'' s]]]"



definition two_paragraphs :: "string list \<Rightarrow> node" where
  "two_paragraphs classes =
     Element ''div'' classes []
       [Element ''p'' [] [] [Text ''Kotak is a bank.''], Element ''p'' [] [] [Text '' It lends. '']]"

definition summary_page :: loc where
  \<comment> \<open>the same two paragraphs as the about text and as the key points\<close>
  "summary_page = Loc [] [] (Element ''section'' [] [(''id'', ''top'')]
     [two_paragraphs [''about''], two_paragraphs [''sub'', ''commentary'']])"

definition empty_page :: loc where
  "empty_page = Loc [] [] (Element ''section'' [] [(''id'', ''top'')] [])"

subsection \<open>The orchestrator\<close>

definition href_of :: "loc \<Rightarrow> string" where
  "href_of link = (case attr ''href'' (nd link) of Some h \<Rightarrow> h | None \<Rightarrow> [])"

definition nav_labels :: "loc \<Rightarrow> string list" where
  \<comment> \<open>the keys under which the navigation links of the page can store a section\<close>
  "nav_labels soup =
     (case sub_nav_of soup of
        None \<Rightarrow> []
      | Some sub_nav \<Rightarrow> map (\<lambda>link. link_label link (lstrip_hash (href_of link))) (nav_links sub_nav))"

definition matching_styles :: "loc \<Rightarrow> loc list" where
  \<comment> \<open>the style blocks whose text has a match of the identifier pattern, in document order\<close>
  "matching_styles soup =
     filter (\<lambda>st. re_search (get_text st) \<noteq> None) (find_all [''style''] soup)"

definition id_or_na :: "loc \<Rightarrow> string" where
  \<comment> \<open>the first match of the pattern across the style blocks, or N/A\<close>
  "id_or_na soup =
     (case matching_styles soup of
        [] \<Rightarrow> ''N/A''
      | st # _ \<Rightarrow> (case re_search (get_text st) of Some c \<Rightarrow> c | None \<Rightarrow> ''N/A''))"

definition page_url :: string where
  "page_url = ''https://www.screener.in/company/KOTAKBANK/consolidated/''"

definition name_block :: node where
  "name_block = Element ''div'' [''company-nav''] []
     [Element ''h1'' [''h2'', ''shrink-text''] [] [Text ''Kotak Bank'']]"

definition nav_block :: node where
  "nav_block = Element ''div'' [''sub-nav-holder''] []
     [Element ''div'' [''sub-nav''] []
        [Element ''a'' [] [(''href'', ''#balance-sheet'')] [Text ''Balance Sheet'']]]"

definition balance_block :: node where
  "balance_block = Element ''section'' [] [(''id'', ''balance-sheet'')]
     [classed_table [''data-table''] ''Assets'']"

definition id_page :: loc where
  \<comment> \<open>a name heading, a style block with the id 12345, one navigation link, its section\<close>
  "id_page = BeautifulSoup
     [Element ''style'' [] [] [Text (''tr['' @ id_prefix @ ''12345'' @ [CHR 0x22] @ '']'')],
      name_block, nav_block, balance_block]"

definition noid_page :: loc where
  \<comment> \<open>the same page without the style block\<close>
  "noid_page = BeautifulSoup [name_block, nav_block, balance_block]"

definition bare_page :: loc where
  \<comment> \<open>a page with neither a style block nor a navigation list\<close>
  "bare_page = BeautifulSoup [name_block, balance_block]"

definition web_of :: "loc \<Rightarrow> error + loc \<Rightarrow> web" where
  \<comment> \<open>a web that serves the page, one answer for the commentary of 12345, and nothing else\<close>
  "web_of page commentary u =
     (if u = page_url then Inr page
      else if u = commentary_url ''12345'' then commentary
      else Inl TransportError)"

definition id_web :: web where
  "id_web = web_of id_page (Inr about_doc)"

definition noid_web :: web where
  "noid_web = web_of noid_page (Inl TransportError)"

definition bare_web :: web where
  "bare_web = web_of bare_page (Inr about_doc)"

definition dot_page :: loc where
  \<comment> \<open>a page whose one navigation link has the fragment a.b, which is not an identifier\<close>
  "dot_page = BeautifulSoup
     [name_block,
      Element ''div'' [''sub-nav-holder''] []
        [Element ''div'' [''sub-nav''] []
           [Element ''a'' [] [(''href'', ''#a.b'')] [Text ''Dots'']]],
      balance_block]"

definition dot_web :: web where
  "dot_web = web_of dot_page (Inl TransportError)"

definition reject_all :: css where
  \<comment> \<open>a selector library that rejects every text that is put to it\<close>
  "reject_all text soup = Inl SelectorError"

definition match_none :: css where
  \<comment> \<open>a selector library that accepts every text and finds no match\<close>
  "match_none text soup = Inr None"

section \<open>Properties\<close>

subsection \<open>Loops that append\<close>

lemma fold_append_filter:
  "fold (\<lambda>x acc. if P (f x) then acc @ [f x] else acc) xs acc0 = acc0 @ filter P (map f xs)"
  by (induction xs arbitrary: acc0) simp_all

subsection \<open>Trimming\<close>

lemma strip_empty_iff: "strip s = [] \<longleftrightarrow> (\<forall>c \<in> set s. isspace c)"
proof -
  have "(\<forall>c \<in> set (dropWhile isspace s). isspace c) \<longleftrightarrow> dropWhile isspace s = []"
    by (metis hd_dropWhile list.set_sel(1) empty_iff list.set(1))
  then show ?thesis
    by (simp add: strip_def)
qed

lemma join_empty_sep: "join [] xs = concat xs"
  by (induction "[] :: string" xs rule: join.induct) simp_all

lemma get_text_strip_empty_iff: "get_text_strip n = [] \<longleftrightarrow> strip (get_text n) = []"
  by (auto simp: get_text_strip_def get_text_def stripped_strings_def join_empty_sep strip_empty_iff)

subsection \<open>parse\_table\<close>

lemma truthy_row_texts: "truthy_row (row_texts row) = nonblank_row row"
  by (simp add: truthy_row_def row_texts_def nonblank_row_def list_ex_iff get_text_strip_empty_iff)

lemma collect_rows_filter: "collect_rows rows = map row_texts (filter nonblank_row rows)"
proof -
  have "collect_rows rows = filter truthy_row (map row_texts rows)"
    by (simp only: collect_rows_def Let_def fold_append_filter append_Nil)
  then show ?thesis
    by (simp add: filter_map comp_def truthy_row_texts)
qed

text \<open>
  C1, as the claim states it, fails: for an absent table \<^const>\<open>parse_table\<close> does not
  return the mapping with an empty headers list and an empty rows list.
\<close>

theorem parse_table_absent_counterexample:
  "parse_table None \<noteq> JDict [(''headers'', JList []), (''rows'', JList [])]"
  by (simp add: parse_table_def)

text \<open>
  C1, amended: for an absent table input \<^const>\<open>parse_table\<close> returns the empty mapping,
  which has neither a headers nor a rows entry.
\<close>

theorem parse_table_absent: "parse_table None = JDict []"
  by (simp add: parse_table_def)

text \<open>
  C2, as the claim states it, fails: a table with two bodies has two body rows, both with
  a non-empty cell, and \<^const>\<open>parse_table\<close> keeps the row of the first body only.
\<close>

theorem parse_table_rows_counterexample:
  "map row_texts (filter nonblank_row (every_body_row two_body_table)) = [[''a''], [''b'']]
   \<and> parse_table (Some two_body_table) =
       JDict [(''headers'', JList []), (''rows'', JList [JList [JStr ''a'']])]"
  by code_simp

text \<open>
  C2, amended: \<^const>\<open>parse_table\<close> reads the rows below the first tbody element of the
  table and no other row (a table without a tbody element gives no rows). Of these rows
  it keeps exactly those that have a cell which is non-empty after trimming, in the order
  in which the rows stand in the document.
\<close>

theorem parse_table_keeps_nonblank_rows:
  "\<exists>headers. parse_table (Some t) =
     JDict [(''headers'', headers),
            (''rows'', json_rows (map row_texts (filter nonblank_row (first_tbody_rows t))))]"
  by (simp add: parse_table_def first_tbody_rows_def collect_rows_filter Let_def split: option.split)

theorem parse_table_keeps_nonblank_rows_witness:
  "\<exists>headers. parse_table (Some hdfc_table) =
     JDict [(''headers'', headers), (''rows'', JList [JList [JStr ''1.'', JStr ''HDFC Bank'']])]"
proof -
  have "json_rows (map row_texts (filter nonblank_row (first_tbody_rows hdfc_table))) =
      JList [JList [JStr ''1.'', JStr ''HDFC Bank'']]"
    by code_simp
  with parse_table_keeps_nonblank_rows[of hdfc_table] show ?thesis by simp
qed

lemma parse_table_without_tbody:
  "parse_table (Some bodiless_table) = JDict [(''headers'', JList []), (''rows'', JList [])]"
  by code_simp

subsection \<open>parse\_growth\_tables\<close>

lemma growth_row_heading:
  "heading_row r \<Longrightarrow> growth_row r (ht, data) = (Some (heading_of r), AList.update (heading_of r) [] data)"
  by (auto simp: growth_row_def heading_row_def heading_of_def Let_def)

lemma growth_row_plain_None:
  "\<not> heading_row r \<Longrightarrow> growth_row r (None, data) = (None, data)"
  by (simp add: growth_row_def heading_row_def)

lemma growth_row_plain_Some:
  "\<not> heading_row r \<Longrightarrow> growth_row r (Some h, data) =
     (Some h, if two_cells r then put_entry h (row_entry r) data else data)"
  by (simp add: growth_row_def heading_row_def two_cells_def row_entry_def)

lemma put_entry_Some:
  "map_of data h = Some d0 \<Longrightarrow> put_entry h e data = AList.update h (AList.update (fst e) (snd e) d0) data"
  by (simp add: put_entry_def)

lemma fold_growth_row:
  "snd (fold growth_row rows (None, data)) = fold record_group (groups rows) data"
  "map_of data h = Some d0 \<Longrightarrow>
     snd (fold growth_row rows (Some h, data)) =
       fold record_group (groups rows) (AList.update h (add_entries (fst (sections rows)) d0) data)"
proof (induction rows arbitrary: data h d0)
  case Nil
  { case 1 show ?case by (simp add: groups_def) }
  { case 2 then show ?case by (simp add: groups_def add_entries_def update_triv) }
next
  case (Cons r rs)
  obtain pre gs where sec: "sections rs = (pre, gs)" by (cases "sections rs")
  { case 1
    show ?case
    proof (cases "heading_row r")
      case True
      have "map_of (AList.update (heading_of r) [] data) (heading_of r) = Some []"
        by (simp add: update_conv')
      from Cons.IH(2)[OF this] True sec show ?thesis
        by (simp add: growth_row_heading groups_def record_group_def)
    next
      case False
      with Cons.IH(1)[of data] sec show ?thesis
        by (simp add: growth_row_plain_None groups_def)
    qed }
  { case 2
    show ?case
    proof (cases "heading_row r")
      case True
      have "map_of (AList.update (heading_of r) [] data) (heading_of r) = Some []"
        by (simp add: update_conv')
      from Cons.IH(2)[OF this] True sec 2 show ?thesis
        by (simp add: growth_row_heading groups_def record_group_def add_entries_def update_triv)
    next
      case False
      show ?thesis
      proof (cases "two_cells r")
        case True
        let ?d1 = "AList.update (fst (row_entry r)) (snd (row_entry r)) d0"
        have "map_of (AList.update h ?d1 data) h = Some ?d1"
          by (simp add: update_conv')
        from Cons.IH(2)[OF this] False True sec 2 show ?thesis
          by (simp add: growth_row_plain_Some groups_def put_entry_Some add_entries_def)
      next
        case nt: False
        from Cons.IH(2)[OF 2] False nt sec show ?thesis
          by (simp add: growth_row_plain_Some groups_def add_entries_def)
      qed
    qed }
qed

lemma fold_concat: "fold f (concat xss) = fold (fold f) xss"
  by (induction xss) simp_all

lemma growth_table_groups:
  "growth_table tbl data = fold record_group (groups (select (Sel [SelTag ''tr'']) tbl)) data"
  by (simp add: growth_table_def fold_growth_row(1))

lemma fold_growth_table:
  "fold growth_table ts data =
     fold record_group (concat (map (\<lambda>tbl. groups (select (Sel [SelTag ''tr'']) tbl)) ts)) data"
  by (induction ts arbitrary: data) (simp_all add: growth_table_groups)

lemma parse_growth_tables_groups:
  "parse_growth_tables s = fold record_group (all_groups s) []"
  by (simp add: parse_growth_tables_def Let_def all_groups_def fold_growth_table)

lemma fold_record_group_other:
  "h \<notin> fst ` set gs \<Longrightarrow> map_of (fold record_group gs data) h = map_of data h"
  by (induction gs arbitrary: data) (auto simp: record_group_def update_conv')

lemma last_group_wins:
  "gs = gs1 @ (h, grp) # gs2 \<Longrightarrow> h \<notin> fst ` set gs2 \<Longrightarrow>
   map_of (fold record_group gs data) h = Some (add_entries grp [])"
  by (simp add: fold_record_group_other record_group_def update_conv')


lemma sections_append_heading:
  "heading_row hr \<Longrightarrow>
   sections (xs @ hr # ys) =
     (fst (sections xs), snd (sections xs) @ (heading_of hr, fst (sections ys)) # snd (sections ys))"
  by (induction xs) (simp_all add: split_beta)

lemma fst_sections: "fst (sections ys) = takeWhile (\<lambda>r. \<not> heading_row r) ys"
  by (induction ys) (simp_all add: split_beta)

lemma group_headings:
  "fst ` set (snd (sections ys)) = heading_of ` {r \<in> set ys. heading_row r}"
  by (induction ys) (auto simp: split_beta)

lemma groups_headings:
  "fst ` set (groups rows) = heading_of ` {r \<in> set rows. heading_row r}"
  by (simp add: groups_def group_headings)

lemma all_groups_headings:
  "fst ` set (concat (map (\<lambda>tbl. groups (table_rows tbl)) ts)) =
     heading_of ` {r. \<exists>t \<in> set ts. r \<in> set (table_rows t) \<and> heading_row r}"
proof (induction ts)
  case Nil
  show ?case by simp
next
  case (Cons a ts)
  have "{r. \<exists>t \<in> set (a # ts). r \<in> set (table_rows t) \<and> heading_row r} =
        {r \<in> set (table_rows a). heading_row r} \<union>
        {r. \<exists>t \<in> set ts. r \<in> set (table_rows t) \<and> heading_row r}"
    by auto
  with Cons.IH show ?case
    by (simp add: image_Un groups_headings)
qed

lemma rstrip_colon_parts:
  "\<exists>k. t = rstrip_colon t @ replicate k (CHR '':'')"
proof -
  let ?P = "\<lambda>c. c = CHR '':''"
  have tw: "takeWhile ?P xs = replicate (length (takeWhile ?P xs)) (CHR '':'')" for xs :: string
    by (induction xs) simp_all
  have "rev t = takeWhile ?P (rev t) @ dropWhile ?P (rev t)" by simp
  then have "t = rev (dropWhile ?P (rev t)) @ rev (takeWhile ?P (rev t))"
    by (metis rev_append rev_rev_ident)
  also have "rev (takeWhile ?P (rev t)) = replicate (length (takeWhile ?P (rev t))) (CHR '':'')"
    using tw[of "rev t"] by (metis rev_replicate)
  finally show ?thesis unfolding rstrip_colon_def by blast
qed

lemma rstrip_colon_last: "rstrip_colon t = [] \<or> last (rstrip_colon t) \<noteq> CHR '':''"
proof (cases "dropWhile (\<lambda>c. c = CHR '':'') (rev t)")
  case Nil
  then show ?thesis by (simp add: rstrip_colon_def)
next
  case (Cons a as)
  with hd_dropWhile[of "\<lambda>c. c = CHR '':''" "rev t"] have "a \<noteq> CHR '':''" by simp
  with Cons show ?thesis by (simp add: rstrip_colon_def)
qed

lemma leading_rows_dropped:
  "(\<forall>r \<in> set pre. \<not> heading_row r) \<Longrightarrow>
   fold growth_row (pre @ rest) (None, data) = fold growth_row rest (None, data)"
  by (induction pre) (simp_all add: growth_row_plain_None)

text \<open>
  C3, as the claim states it, fails: a row with a header cell and exactly two data cells,
  met after a heading row, records no entry. It is a heading row, and it starts the empty
  mapping of its own heading.
\<close>

theorem growth_entries_counterexample:
  "two_cells mixed_row \<and>
   growth_row mixed_row (Some ''G'', [(''G'', [])]) = (Some ''H'', [(''G'', []), (''H'', [])])"
  by code_simp

text \<open>
  C3, amended: an entry is recorded under the active heading exactly when a row without a
  header cell has exactly two data cells and a heading row has been seen before it in its
  table; rows before any heading row of a table leave the data as it is; the result is
  what the groups of rows (heading row, rows up to the next heading row) record in
  order; and the period label is the trimmed text of the first cell without its trailing
  colons.
\<close>

theorem growth_entries:
  "(\<not> heading_row row \<longrightarrow>
      growth_row row (ht, data) =
        (ht, case ht of
               None \<Rightarrow> data
             | Some h \<Rightarrow> if two_cells row then put_entry h (row_entry row) data else data))
   \<and> ((\<forall>r \<in> set pre. \<not> heading_row r) \<longrightarrow>
        fold growth_row (pre @ rest) (None, data) = fold growth_row rest (None, data))
   \<and> parse_growth_tables s = fold record_group (all_groups s) []
   \<and> (\<exists>k. get_text_strip (find_all [''td''] row ! 0) = fst (row_entry row) @ replicate k (CHR '':''))
   \<and> (fst (row_entry row) = [] \<or> last (fst (row_entry row)) \<noteq> CHR '':'')"
proof -
  have 1: "\<not> heading_row row \<longrightarrow>
      growth_row row (ht, data) =
        (ht, case ht of
               None \<Rightarrow> data
             | Some h \<Rightarrow> if two_cells row then put_entry h (row_entry row) data else data)"
    by (cases ht) (simp_all add: growth_row_plain_None growth_row_plain_Some)
  have 4: "\<exists>k. get_text_strip (find_all [''td''] row ! 0) = fst (row_entry row) @ replicate k (CHR '':'')"
    by (simp add: row_entry_def period_entry_def rstrip_colon_parts)
  have 5: "fst (row_entry row) = [] \<or> last (fst (row_entry row)) \<noteq> CHR '':''"
    by (simp add: row_entry_def period_entry_def rstrip_colon_last)
  from 1 4 5 leading_rows_dropped[of pre rest data] parse_growth_tables_groups[of s]
  show ?thesis by blast
qed

theorem growth_entries_witness:
  "\<not> heading_row plain_row
   \<and> growth_row plain_row (Some ''G'', [(''G'', [])]) = (Some ''G'', [(''G'', [(''10 Years'', ''17%'')])])
   \<and> fold growth_row ([plain_row] @ [head_row]) (None, [(''G'', [])]) = fold growth_row [head_row] (None, [(''G'', [])])
   \<and> parse_growth_tables sales_section =
        [(''Compounded Sales Growth'', [(''10 Years'', ''17%''), (''5 Years'', ''14%'')])]"
proof -
  note T = growth_entries[of plain_row "Some ''G''" "[(''G'', [])]" "[plain_row]" "[head_row]" sales_section]
  have nh: "\<not> heading_row plain_row" by code_simp
  have pre: "\<forall>r \<in> set [plain_row]. \<not> heading_row r" using nh by simp
  have c1: "(Some ''G'', case Some ''G'' of None \<Rightarrow> [(''G'', [])]
      | Some h \<Rightarrow> if two_cells plain_row then put_entry h (row_entry plain_row) [(''G'', [])] else [(''G'', [])])
      = (Some ''G'', [(''G'', [(''10 Years'', ''17%'')])])" by code_simp
  have c3: "fold record_group (all_groups sales_section) [] =
      [(''Compounded Sales Growth'', [(''10 Years'', ''17%''), (''5 Years'', ''14%'')])]" by code_simp
  from T nh pre c1 c3 show ?thesis by simp
qed

text \<open>
  C10: a heading row sets the mapping of its heading text to the empty mapping, whatever
  was recorded under that text before. So for the last heading row with a given text (no
  later row of its table and no row of a later table is a heading row with that text), the
  mapping of that text in the result holds exactly the entries of the two-cell rows that
  follow this row, up to the next heading row.
\<close>

theorem repeated_heading:
  assumes tables: "ranges_tables s = ts1 @ tbl # ts2"
    and rows: "table_rows tbl = rs1 @ hr # rs2"
    and hr: "heading_row hr"
    and later_rows: "\<forall>r \<in> set rs2. heading_row r \<longrightarrow> heading_of r \<noteq> heading_of hr"
    and later_tables: "\<forall>t \<in> set ts2. \<forall>r \<in> set (table_rows t). heading_row r \<longrightarrow> heading_of r \<noteq> heading_of hr"
  shows "map_of (snd (growth_row hr (ht, data))) (heading_of hr) = Some []
       \<and> map_of (parse_growth_tables s) (heading_of hr) =
           Some (add_entries (takeWhile (\<lambda>r. \<not> heading_row r) rs2) [])"
proof -
  let ?h = "heading_of hr"
  let ?G = "\<lambda>ts. concat (map (\<lambda>tbl. groups (table_rows tbl)) ts)"
  have g: "groups (table_rows tbl) =
      snd (sections rs1) @ (?h, takeWhile (\<lambda>r. \<not> heading_row r) rs2) # snd (sections rs2)"
    by (simp add: groups_def rows sections_append_heading[OF hr] fst_sections)
  have "all_groups s = (?G ts1 @ snd (sections rs1)) @
      (?h, takeWhile (\<lambda>r. \<not> heading_row r) rs2) # (snd (sections rs2) @ ?G ts2)"
    using g by (simp add: all_groups_def tables table_rows_def)
  moreover have "?h \<notin> fst ` set (snd (sections rs2) @ ?G ts2)"
  proof -
    have "?h \<notin> heading_of ` {r \<in> set rs2. heading_row r}"
    proof
      assume "?h \<in> heading_of ` {r \<in> set rs2. heading_row r}"
      then obtain r where r: "r \<in> set rs2" "heading_row r" "?h = heading_of r"
        by (auto simp only: image_iff mem_Collect_eq)
      from later_rows[THEN bspec, OF r(1)] r(2) have "heading_of r \<noteq> ?h" by (rule mp)
      with r(3) show False by simp
    qed
    then have a: "?h \<notin> fst ` set (snd (sections rs2))"
      by (simp add: group_headings)
    have "?h \<notin> heading_of ` {r. \<exists>t \<in> set ts2. r \<in> set (table_rows t) \<and> heading_row r}"
    proof
      assume "?h \<in> heading_of ` {r. \<exists>t \<in> set ts2. r \<in> set (table_rows t) \<and> heading_row r}"
      then obtain r t where r: "t \<in> set ts2" "r \<in> set (table_rows t)" "heading_row r" "?h = heading_of r"
        by (auto simp only: image_iff mem_Collect_eq)
      from later_tables[THEN bspec, OF r(1), THEN bspec, OF r(2)] r(3)
      have "heading_of r \<noteq> ?h" by (rule mp)
      with r(4) show False by simp
    qed
    then have b: "?h \<notin> fst ` set (?G ts2)"
      unfolding all_groups_headings .
    from a b show ?thesis by (simp add: image_Un)
  qed
  ultimately have "map_of (parse_growth_tables s) ?h =
      Some (add_entries (takeWhile (\<lambda>r. \<not> heading_row r) rs2) [])"
    unfolding parse_growth_tables_groups by (rule last_group_wins)
  moreover have "map_of (snd (growth_row hr (ht, data))) ?h = Some []"
    by (simp add: growth_row_heading[OF hr] update_conv')
  ultimately show ?thesis by simp
qed

theorem repeated_heading_witness:
  "ranges_tables dup_section = [hd (ranges_tables dup_section)]
   \<and> heading_row (table_rows (hd (ranges_tables dup_section)) ! 2)
   \<and> heading_of (table_rows (hd (ranges_tables dup_section)) ! 2) = ''G''
   \<and> map_of (parse_growth_tables dup_section) ''G'' = Some [(''5 Years'', ''14%'')]"
proof -
  let ?tbl = "hd (ranges_tables dup_section)"
  let ?rows = "table_rows ?tbl"
  have h1: "ranges_tables dup_section = [] @ ?tbl # []" by code_simp
  have h2: "?rows = take 2 ?rows @ ?rows ! 2 # drop 3 ?rows" by code_simp
  have h3: "heading_row (?rows ! 2)" by code_simp
  have h4: "\<forall>r \<in> set (drop 3 ?rows). heading_row r \<longrightarrow> heading_of r \<noteq> heading_of (?rows ! 2)" by code_simp
  have h5: "\<forall>t \<in> set []. \<forall>r \<in> set (table_rows t). heading_row r \<longrightarrow> heading_of r \<noteq> heading_of (?rows ! 2)" by simp
  have e1: "heading_of (?rows ! 2) = ''G''" by code_simp
  have e2: "add_entries (takeWhile (\<lambda>r. \<not> heading_row r) (drop 3 ?rows)) [] = [(''5 Years'', ''14%'')]" by code_simp
  from repeated_heading[OF h1 h2 h3 h4 h5, of None "[]"] h1 h3 e1 e2 show ?thesis by simp
qed

subsection \<open>parse\_commentary\_html\<close>

lemma commentary_step_pair:
  "commentary_step h acc = (case heading_pair h of Some p \<Rightarrow> AList.update (fst p) (snd p) acc | None \<Rightarrow> acc)"
  by (simp add: commentary_step_def heading_pair_def Let_def split: option.split)

lemma fold_commentary_step:
  "map_of (fold commentary_step hs acc) = map_of (rev (List.map_filter heading_pair hs) @ acc)"
proof (induction hs arbitrary: acc)
  case Nil
  show ?case by (simp add: map_filter_simps)
next
  case (Cons h hs)
  show ?case
  proof (cases "heading_pair h")
    case None
    then show ?thesis by (simp add: Cons.IH commentary_step_pair[of h] map_filter_simps)
  next
    case (Some p)
    have "map_of (AList.update (fst p) (snd p) acc) = map_of (p # acc)"
      by (rule ext) (simp add: update_conv')
    with Some show ?thesis
      by (simp add: Cons.IH commentary_step_pair[of h] map_filter_simps map_add_def fun_eq_iff split: option.split)
  qed
qed

lemma set_map_filter_conv:
  "set (List.map_filter f xs) = {y. \<exists>x \<in> set xs. f x = Some y}"
  by (induction xs) (auto simp: map_filter_simps split: option.splits)

lemma heading_pair_Some_iff:
  "(\<exists>v. heading_pair h = Some (k, v)) \<longleftrightarrow> get_text_strip h = k \<and> find_next_sibling h \<noteq> None"
  by (cases "find_next_sibling h") (auto simp: heading_pair_def)

lemma first_sibling_found:
  "(\<forall>m \<in> set pre. \<not> P m) \<Longrightarrow> P n \<Longrightarrow>
   first_sibling P up (pre @ n # post) = Some (Loc up post n)"
  by (induction pre) simp_all

lemma first_sibling_Some:
  "first_sibling P up xs = Some l \<Longrightarrow>
   \<exists>pre n post. xs = pre @ n # post \<and> P n \<and> (\<forall>m \<in> set pre. \<not> P m) \<and> l = Loc up post n"
proof (induction xs)
  case Nil
  then show ?case by simp
next
  case (Cons a xs)
  show ?case
  proof (cases "P a")
    case True
    with Cons.prems have "a # xs = [] @ a # xs \<and> P a \<and> (\<forall>m \<in> set []. \<not> P m) \<and> l = Loc up xs a"
      by simp
    then show ?thesis by blast
  next
    case False
    with Cons.prems have "first_sibling P up xs = Some l" by simp
    from Cons.IH[OF this] obtain pre n post where
      "xs = pre @ n # post" "P n" "\<forall>m \<in> set pre. \<not> P m" "l = Loc up post n" by blast
    with False have "a # xs = (a # pre) @ n # post \<and> P n \<and> (\<forall>m \<in> set (a # pre). \<not> P m)
        \<and> l = Loc up post n" by simp
    then show ?thesis by blast
  qed
qed

lemma first_sibling_split:
  "first_sibling P up xs = Some l \<longleftrightarrow>
   (\<exists>pre n post. xs = pre @ n # post \<and> P n \<and> (\<forall>m \<in> set pre. \<not> P m) \<and> l = Loc up post n)"
proof
  assume "first_sibling P up xs = Some l"
  then show "\<exists>pre n post. xs = pre @ n # post \<and> P n \<and> (\<forall>m \<in> set pre. \<not> P m) \<and> l = Loc up post n"
    by (rule first_sibling_Some)
next
  assume "\<exists>pre n post. xs = pre @ n # post \<and> P n \<and> (\<forall>m \<in> set pre. \<not> P m) \<and> l = Loc up post n"
  then obtain pre n post where
    "xs = pre @ n # post" "P n" "\<forall>m \<in> set pre. \<not> P m" "l = Loc up post n" by blast
  then show "first_sibling P up xs = Some l" by (simp add: first_sibling_found)
qed

text \<open>
  C4, as the claim states it, fails: a heading whose next sibling element is a paragraph,
  with a div of class sub only after that paragraph, has no qualifying block right after
  it, and yet it is in the output, with the text of that later div.
\<close>

theorem commentary_counterexample:
  "length (select heading_selector gap_doc) = 1
   \<and> get_text_strip (hd (select heading_selector gap_doc)) = ''About''
   \<and> immediate_sub (hd (select heading_selector gap_doc)) = None
   \<and> parse_commentary_html gap_doc = [(''About'', ''Kotak is a bank.'')]"
  by code_simp

text \<open>
  C4, amended: \<^const>\<open>parse_commentary_html\<close> maps a heading text to the text (joined
  with single spaces, every piece trimmed) of the first later sibling of the heading that
  is a div of class sub, adjacent or not; when several headings have the same text, the
  last one that has such a sibling gives the value; and a heading text is a key of the
  output exactly when some heading with that text has such a later sibling.
\<close>

theorem commentary_pairs:
  "map_of (parse_commentary_html soup) k = map_of (rev (heading_pairs soup)) k
   \<and> (k \<in> fst ` set (parse_commentary_html soup) \<longleftrightarrow>
        (\<exists>h \<in> set (select heading_selector soup).
           get_text_strip h = k \<and> find_next_sibling h \<noteq> None))
   \<and> (heading_pair h = Some (k, v) \<longleftrightarrow>
        get_text_strip h = k \<and>
        (\<exists>pre n post. nxt h = pre @ n # post \<and> is_div_sub n \<and> (\<forall>m \<in> set pre. \<not> is_div_sub m)
           \<and> v = get_text_sep_strip (Loc (anc h) post n)))"
proof -
  have m: "map_of (parse_commentary_html soup) = map_of (rev (heading_pairs soup))"
    by (simp add: parse_commentary_html_def heading_pairs_def fold_commentary_step)
  have "fst ` set (parse_commentary_html soup) = fst ` set (rev (heading_pairs soup))"
    using m by (metis dom_map_of_conv_image_fst)
  then have "k \<in> fst ` set (parse_commentary_html soup) \<longleftrightarrow>
      (\<exists>h \<in> set (select heading_selector soup). \<exists>v. heading_pair h = Some (k, v))"
    by (force simp: heading_pairs_def set_map_filter_conv)
  then have b: "k \<in> fst ` set (parse_commentary_html soup) \<longleftrightarrow>
        (\<exists>h \<in> set (select heading_selector soup).
           get_text_strip h = k \<and> find_next_sibling h \<noteq> None)"
    by (simp add: heading_pair_Some_iff)
  have c: "heading_pair h = Some (k, v) \<longleftrightarrow>
        get_text_strip h = k \<and>
        (\<exists>pre n post. nxt h = pre @ n # post \<and> is_div_sub n \<and> (\<forall>m \<in> set pre. \<not> is_div_sub m)
           \<and> v = get_text_sep_strip (Loc (anc h) post n))"
  proof -
    have "heading_pair h = Some (k, v) \<longleftrightarrow>
        get_text_strip h = k \<and>
        (\<exists>l. first_sibling is_div_sub (anc h) (nxt h) = Some l \<and> v = get_text_sep_strip l)"
      by (auto simp: heading_pair_def find_next_sibling_def split: option.splits)
    then show ?thesis unfolding first_sibling_split by blast
  qed
  from m b c show ?thesis by simp
qed

theorem commentary_pairs_witness:
  "parse_commentary_html about_doc = [(''About'', ''Kotak Mahindra Bank is a banking company.'')]
   \<and> map_of (rev (heading_pairs about_doc)) ''Key Points'' = None
   \<and> map_of (parse_commentary_html about_doc) ''Key Points'' = None"
proof -
  have e: "parse_commentary_html about_doc = [(''About'', ''Kotak Mahindra Bank is a banking company.'')]"
    by code_simp
  have n: "map_of (rev (heading_pairs about_doc)) ''Key Points'' = None"
    by code_simp
  from commentary_pairs[of about_doc "''Key Points''"] e n show ?thesis by simp
qed

subsection \<open>parse\_peers\_section and parse\_summary\_section\<close>






text \<open>
  C8: the key points are joined with single spaces and absent elements give empty strings,
  but the about text of two paragraphs is joined with nothing between them: the code
  fails the claim on the about text.
\<close>

theorem summary_about_text:
  "map_of (parse_summary_section summary_page) ''about'' = Some (JStr ''Kotak is a bank.It lends.'')
   \<and> map_of (parse_summary_section summary_page) ''key_points'' = Some (JStr ''Kotak is a bank. It lends.'')
   \<and> parse_summary_section empty_page =
       [(''about'', JStr []), (''key_points'', JStr []), (''top_ratios'', JList [])]"
  by code_simp

subsection \<open>scrape\_screener\_data\<close>

lemma match_here_nonempty: "match_here s = Some d \<Longrightarrow> d \<noteq> []"
  by (auto simp: match_here_def Let_def split: if_splits)

lemma re_search_nonempty: "re_search s = Some d \<Longrightarrow> d \<noteq> []"
  by (induction s) (auto simp: match_here_nonempty split: option.splits)

lemma find_company_id_nonempty: "find_company_id sts = Some d \<Longrightarrow> d \<noteq> []"
  by (induction sts) (auto simp: re_search_nonempty split: option.splits)

lemma truthy_company_id: "truthy (company_id_of soup) = company_id_of soup"
  by (cases "company_id_of soup") (auto simp: truthy_def company_id_of_def dest: find_company_id_nonempty)

lemma find_company_id_first:
  "find_company_id sts =
     (case filter (\<lambda>st. re_search (get_text st) \<noteq> None) sts of
        [] \<Rightarrow> None
      | st # _ \<Rightarrow> re_search (get_text st))"
  by (induction sts) (auto split: option.splits)

lemma id_or_na_company_id:
  "id_or_na soup = (case company_id_of soup of Some c \<Rightarrow> c | None \<Rightarrow> ''N/A'')"
  by (auto simp: id_or_na_def matching_styles_def company_id_of_def find_company_id_first
      split: list.splits option.splits)

lemma first_results_eq:
  "first_results soup =
     [(''company_name'', JStr (parse_company_name soup)), (''company_id'', JStr (id_or_na soup))]"
  by (simp add: first_results_def Let_def truthy_company_id id_or_na_company_id)

lemma nav_step_other:
  "nav_step css soup link res = Inr res' \<Longrightarrow> k \<noteq> link_label link (lstrip_hash (href_of link)) \<Longrightarrow>
   map_of res' k = map_of res k"
  by (auto simp: nav_step_def Let_def href_of_def update_conv' split: if_splits sum.splits option.splits)

lemma nav_loop_other:
  "nav_loop css soup links res = Inr res' \<Longrightarrow>
   k \<notin> set (map (\<lambda>link. link_label link (lstrip_hash (href_of link))) links) \<Longrightarrow>
   map_of res' k = map_of res k"
proof (induction links arbitrary: res)
  case Nil
  then show ?case by simp
next
  case (Cons l ls)
  then obtain r where s: "nav_step css soup l res = Inr r" and n: "nav_loop css soup ls r = Inr res'"
    by (auto split: sum.splits)
  from Cons.prems(2) have k: "k \<noteq> link_label l (lstrip_hash (href_of l))"
    and ks: "k \<notin> set (map (\<lambda>link. link_label link (lstrip_hash (href_of link))) ls)" by auto
  from Cons.IH[OF n ks] nav_step_other[OF s k] show ?case by simp
qed

lemma add_growth_other: "k \<noteq> ''growth_metrics'' \<Longrightarrow> map_of (add_growth soup res) k = map_of res k"
  by (simp add: add_growth_def update_conv' split: option.split)

lemma filter_head: "filter P xs = x # r \<Longrightarrow> P x"
  by (induction xs) (auto split: if_splits)

text \<open>
  C7: when the page has no navigation list, \<^const>\<open>scrape_screener_data\<close> returns a
  result, not an error, and the result holds exactly the company name and the company id,
  in this order: no section, no growth metrics, no commentary.
\<close>

theorem no_navigation_partial_result:
  "web url = Inr soup \<Longrightarrow> sub_nav_of soup = None \<Longrightarrow>
   scrape_screener_data css web url =
     Inr [(''company_name'', JStr (parse_company_name soup)), (''company_id'', JStr (id_or_na soup))]"
  by (simp add: scrape_screener_data_def first_results_eq)

theorem no_navigation_partial_result_witness:
  "bare_web page_url = Inr bare_page \<and> sub_nav_of bare_page = None
   \<and> scrape_screener_data reject_all bare_web page_url =
       Inr [(''company_name'', JStr ''Kotak Bank''), (''company_id'', JStr ''N/A'')]"
proof -
  have w: "bare_web page_url = Inr bare_page" by (simp add: bare_web_def web_of_def)
  have n: "sub_nav_of bare_page = None" by code_simp
  have v: "parse_company_name bare_page = ''Kotak Bank''" by code_simp
  have i: "id_or_na bare_page = ''N/A''" by code_simp
  from no_navigation_partial_result[of bare_web page_url bare_page, OF w n] w n v i show ?thesis by simp
qed

text \<open>
  C6, as the claim states it, fails: on a page without a match of the identifier pattern
  and without a navigation list, the result has no commentary entry at all.
\<close>

theorem company_id_counterexample:
  "company_id_of bare_page = None
   \<and> scrape_screener_data reject_all bare_web page_url =
       Inr [(''company_name'', JStr ''Kotak Bank''), (''company_id'', JStr ''N/A'')]"
  by code_simp

text \<open>
  C6, amended: for a page that has the navigation list, in a run that returns a result
  (no fetch fails and the selector library rejects no fragment id), whatever the selector
  library makes of the fragment ids, and when no navigation link is labelled company_id, the company id entry is the first
  match of the pattern across the style blocks, or N/A when there is none. When there is
  no match, the commentary entry is the placeholder and the commentary address is not
  asked for: a web that differs there gives the same result. When there is a match, the
  commentary entry is what \<^const>\<open>parse_commentary_html\<close> makes of the document
  served for that id.
\<close>

theorem company_id_and_commentary:
  assumes page: "web url = Inr soup"
    and nav: "sub_nav_of soup \<noteq> None"
    and run: "scrape_screener_data css web url = Inr res"
    and labels: "''company_id'' \<notin> set (nav_labels soup)"
  shows "map_of res ''company_id'' = Some (JStr (id_or_na soup))
       \<and> (matching_styles soup = [] \<longrightarrow>
            map_of res ''commentary'' =
              Some (JDict [(''info'', JStr ''Company ID not found, so commentary not fetched.'')])
            \<and> (\<forall>web'. web' url = web url \<longrightarrow> scrape_screener_data css web' url = Inr res))
       \<and> (matching_styles soup \<noteq> [] \<longrightarrow>
            (\<exists>doc. web (commentary_url (id_or_na soup)) = Inr doc
               \<and> map_of res ''commentary'' = Some (json_of_strings (parse_commentary_html doc))))"
proof -
  from nav obtain sub_nav where sn: "sub_nav_of soup = Some sub_nav" by auto
  from run page sn obtain r1 where
    loop: "nav_loop css soup (nav_links sub_nav) (first_results soup) = Inr r1" and
    fin: "add_commentary web (company_id_of soup) (add_growth soup r1) = Inr res"
    by (auto simp: scrape_screener_data_def Let_def split: sum.splits)
  from labels sn have "''company_id'' \<notin>
      set (map (\<lambda>link. link_label link (lstrip_hash (href_of link))) (nav_links sub_nav))"
    by (simp add: nav_labels_def)
  from nav_loop_other[OF loop this]
  have r1: "map_of (add_growth soup r1) ''company_id'' = Some (JStr (id_or_na soup))"
    by (simp add: add_growth_other first_results_eq)
  have ms: "matching_styles soup = [] \<longleftrightarrow> company_id_of soup = None"
    by (auto simp: matching_styles_def company_id_of_def find_company_id_first
        split: list.splits dest: filter_head)
  have a: "map_of res ''company_id'' = Some (JStr (id_or_na soup))"
    using fin r1
    by (auto simp: add_commentary_def truthy_company_id update_conv' split: option.splits sum.splits)
  have b: "matching_styles soup = [] \<longrightarrow>
            map_of res ''commentary'' =
              Some (JDict [(''info'', JStr ''Company ID not found, so commentary not fetched.'')])
            \<and> (\<forall>web'. web' url = web url \<longrightarrow> scrape_screener_data css web' url = Inr res)"
  proof
    assume "matching_styles soup = []"
    with ms have none: "company_id_of soup = None" by simp
    with fin have res: "res = AList.update ''commentary''
        (JDict (info ''Company ID not found, so commentary not fetched.'')) (add_growth soup r1)"
      by (simp add: add_commentary_def truthy_def)
    have "scrape_screener_data css web' url = Inr res" if "web' url = web url" for web'
      using that page sn loop none res
      by (simp add: scrape_screener_data_def add_commentary_def truthy_def)
    with res show "map_of res ''commentary'' =
              Some (JDict [(''info'', JStr ''Company ID not found, so commentary not fetched.'')])
            \<and> (\<forall>web'. web' url = web url \<longrightarrow> scrape_screener_data css web' url = Inr res)"
      by (simp add: update_conv' info_def)
  qed
  have c: "matching_styles soup \<noteq> [] \<longrightarrow>
            (\<exists>doc. web (commentary_url (id_or_na soup)) = Inr doc
               \<and> map_of res ''commentary'' = Some (json_of_strings (parse_commentary_html doc)))"
  proof
    assume "matching_styles soup \<noteq> []"
    with ms obtain cid where cid: "company_id_of soup = Some cid" by auto
    then have na: "id_or_na soup = cid" by (simp add: id_or_na_company_id)
    from cid truthy_company_id[of soup] have t: "truthy (company_id_of soup) = Some cid" by simp
    from fin t na show "\<exists>doc. web (commentary_url (id_or_na soup)) = Inr doc
               \<and> map_of res ''commentary'' = Some (json_of_strings (parse_commentary_html doc))"
      by (auto simp: add_commentary_def fetch_commentary_data_def update_conv' split: sum.splits)
  qed
  from a b c show ?thesis by simp
qed

theorem company_id_and_commentary_witness:
  "scrape_screener_data reject_all id_web page_url =
     Inr [(''company_name'', JStr ''Kotak Bank''), (''company_id'', JStr ''12345''),
          (''Balance Sheet'', JDict [(''balance_sheet'',
              JDict [(''headers'', JList [JStr ''Name'']), (''rows'', JList [JList [JStr ''Assets'']])])]),
          (''commentary'', JDict [(''About'', JStr ''Kotak Mahindra Bank is a banking company.'')])]
   \<and> map_of (projr (scrape_screener_data reject_all id_web page_url)) ''company_id'' =
       Some (JStr (id_or_na id_page))
   \<and> scrape_screener_data reject_all noid_web page_url =
     Inr [(''company_name'', JStr ''Kotak Bank''), (''company_id'', JStr ''N/A''),
          (''Balance Sheet'', JDict [(''balance_sheet'',
              JDict [(''headers'', JList [JStr ''Name'']), (''rows'', JList [JList [JStr ''Assets'']])])]),
          (''commentary'', JDict [(''info'', JStr ''Company ID not found, so commentary not fetched.'')])]
   \<and> map_of (projr (scrape_screener_data reject_all noid_web page_url)) ''company_id'' =
       Some (JStr (id_or_na noid_page))
   \<and> scrape_screener_data match_none dot_web page_url =
     Inr [(''company_name'', JStr ''Kotak Bank''), (''company_id'', JStr ''N/A''),
          (''commentary'', JDict [(''info'', JStr ''Company ID not found, so commentary not fetched.'')])]
   \<and> map_of (projr (scrape_screener_data match_none dot_web page_url)) ''company_id'' =
       Some (JStr (id_or_na dot_page))"
proof -
  have w1: "id_web page_url = Inr id_page" by (simp add: id_web_def web_of_def)
  have n1: "sub_nav_of id_page \<noteq> None" by code_simp
  have l1: "''company_id'' \<notin> set (nav_labels id_page)" by code_simp
  have r1: "scrape_screener_data reject_all id_web page_url =
     Inr [(''company_name'', JStr ''Kotak Bank''), (''company_id'', JStr ''12345''),
          (''Balance Sheet'', JDict [(''balance_sheet'',
              JDict [(''headers'', JList [JStr ''Name'']), (''rows'', JList [JList [JStr ''Assets'']])])]),
          (''commentary'', JDict [(''About'', JStr ''Kotak Mahindra Bank is a banking company.'')])]"
    by code_simp
  have w2: "noid_web page_url = Inr noid_page" by (simp add: noid_web_def web_of_def)
  have n2: "sub_nav_of noid_page \<noteq> None" by code_simp
  have l2: "''company_id'' \<notin> set (nav_labels noid_page)" by code_simp
  have r2: "scrape_screener_data reject_all noid_web page_url =
     Inr [(''company_name'', JStr ''Kotak Bank''), (''company_id'', JStr ''N/A''),
          (''Balance Sheet'', JDict [(''balance_sheet'',
              JDict [(''headers'', JList [JStr ''Name'']), (''rows'', JList [JList [JStr ''Assets'']])])]),
          (''commentary'', JDict [(''info'', JStr ''Company ID not found, so commentary not fetched.'')])]"
    by code_simp
  have w3: "dot_web page_url = Inr dot_page" by (simp add: dot_web_def web_of_def)
  have n3: "sub_nav_of dot_page \<noteq> None" by code_simp
  have l3: "''company_id'' \<notin> set (nav_labels dot_page)" by code_simp
  have r3: "scrape_screener_data match_none dot_web page_url =
     Inr [(''company_name'', JStr ''Kotak Bank''), (''company_id'', JStr ''N/A''),
          (''commentary'', JDict [(''info'', JStr ''Company ID not found, so commentary not fetched.'')])]"
    by code_simp
  from company_id_and_commentary[of id_web page_url id_page, OF w1 n1 r1 l1]
    company_id_and_commentary[of noid_web page_url noid_page, OF w2 n2 r2 l2]
    company_id_and_commentary[of dot_web page_url dot_page, OF w3 n3 r3 l3] r1 r2 r3
  show ?thesis by simp
qed

text \<open>
  A run reads the web at two addresses only: the result is the same on two webs that
  serve the same primary document and, when the page has a company id, the same
  commentary document for it.
\<close>

lemma same_documents_same_output:
  assumes primary: "web1 url = web2 url"
    and commentary: "\<forall>soup c. web1 url = Inr soup \<and> company_id_of soup = Some c \<longrightarrow>
        web1 (commentary_url c) = web2 (commentary_url c)"
  shows "scrape_screener_data css web1 url = scrape_screener_data css web2 url"
proof (cases "web1 url")
  case (Inl e)
  with primary have "web2 url = Inl e" by simp
  with Inl show ?thesis by (simp add: scrape_screener_data_def)
next
  case (Inr soup)
  have "add_commentary web1 (company_id_of soup) r = add_commentary web2 (company_id_of soup) r" for r
  proof (cases "company_id_of soup")
    case None
    then show ?thesis by (simp add: add_commentary_def truthy_def)
  next
    case (Some c)
    with commentary Inr have "web1 (commentary_url c) = web2 (commentary_url c)" by blast
    moreover from Some truthy_company_id[of soup] have "truthy (Some c) = Some c" by simp
    ultimately show ?thesis using Some
      by (simp add: add_commentary_def fetch_commentary_data_def)
  qed
  moreover from Inr primary have "web2 url = Inr soup" by simp
  ultimately show ?thesis using Inr
    by (simp add: scrape_screener_data_def Let_def split: option.splits sum.splits)
qed

end
